theory Spec2Isabelle
  imports Main "HOL-Library.Sublist"
begin

section \<open>JavaScript values read from the token payload\<close>

text \<open>
  The payload handed back by the token verifier is decoded JSON, so a claim that the
  interface \<open>GitLabJwtClaims\<close> declares as a string can at run time be absent
  (\<open>undefined\<close>), \<open>null\<close>, a boolean or a string. Numbers, arrays and objects are
  not modelled for these fields.
\<close>

datatype jsval = JUndefined | JNull | JBool bool | JStr string

text \<open>Truthiness, as tested by \<open>if (claims.namespace_path)\<close>.\<close>

fun truthy :: "jsval \<Rightarrow> bool" where
  "truthy JUndefined = False"
| "truthy JNull = False"
| "truthy (JBool b) = b"
| "truthy (JStr s) = (s \<noteq> [])"

text \<open>String conversion, as performed by a template literal.\<close>

fun to_string :: "jsval \<Rightarrow> string" where
  "to_string JUndefined = ''undefined''"
| "to_string JNull = ''null''"
| "to_string (JBool b) = (if b then ''true'' else ''false'')"
| "to_string (JStr s) = s"

section \<open>Data model (types.ts)\<close>

text \<open>
  \<open>PluginConfig\<close>: every field may be missing from the configuration file; a
  missing field is \<open>None\<close>.
\<close>

record PluginConfig =
  gitlab_url :: "string option"
  audience :: "string option"
  ci_username :: "string option"
  jwks_cache_ttl :: "int option"
  project_groups :: "bool option"

text \<open>
  \<open>GitLabJwtClaims\<close>, restricted to the claims declared as strings. The registered
  claims \<open>iss\<close>, \<open>aud\<close>, \<open>exp\<close>, \<open>iat\<close> and the numeric \<open>project_id\<close> are
  consumed by the token verifier only and never read by the plugin.
\<close>

record GitLabJwtClaims =
  sub :: jsval
  ref :: jsval
  ref_type :: jsval
  ref_protected :: jsval
  project_path :: jsval
  namespace_path :: jsval
  user_login :: jsval
  pipeline_source :: jsval
  job_id :: jsval

definition DEFAULT_CI_USERNAME :: string where
  "DEFAULT_CI_USERNAME = ''gitlab-oidc''"

definition DEFAULT_JWKS_CACHE_TTL :: int where
  "DEFAULT_JWKS_CACHE_TTL = 86400"

section \<open>The plugin object (plugin.ts)\<close>

text \<open>The handle returned by \<open>createRemoteJWKSet\<close>: the key URL and the cache age.\<close>

record remote_jwks =
  jwks_url :: string
  cacheMaxAge :: int

text \<open>The options object passed to \<open>jwtVerify\<close>.\<close>

record verify_options =
  opt_algorithms :: "string list"
  opt_issuer :: string
  opt_audience :: string

text \<open>
  The private fields of \<open>GitLabOidcAuth\<close>. The logger is not a field of the model:
  what is logged is recorded as an effect. \<open>jwks\<close> is the lazily created key set.
\<close>

record plugin =
  gitlabUrl :: string
  this_audience :: string
  ciUsername :: string
  jwksCacheTtl :: int
  projectGroups :: bool
  jwks :: "remote_jwks option"

datatype error = Error (message: string)

text \<open>
  Calls that leave the plugin, in the order they are made. A log entry carries the
  object bound to the message (the message templates are left out).
\<close>

datatype effect =
    LoggerInfo "(string \<times> jsval) list"
  | LoggerWarn "(string \<times> jsval) list"
  | CreateRemoteJWKSet string int
  | JwtVerify string remote_jwks verify_options

text \<open>
  The behaviour of the two library calls the plugin depends on: whether \<open>new URL\<close>
  accepts a string, and what \<open>jwtVerify\<close> answers (a rejection with an error, or the
  decoded payload). Every theorem below holds for every such environment.
\<close>

record env =
  url_parses :: "string \<Rightarrow> bool"
  jwtVerify :: "string \<Rightarrow> remote_jwks \<Rightarrow> verify_options \<Rightarrow> error + GitLabJwtClaims"

text \<open>The arguments of the host callback: \<open>cb(null, false)\<close> or \<open>cb(null, groups)\<close>.\<close>

datatype groups_or_false = CbFalse | CbGroups "string list"

datatype callback = Callback "error option" groups_or_false

subsection \<open>Constructor\<close>

text \<open>
  \<open>s.replace(/\/+$/, "")\<close>: the regular expression is tried at each position from the
  left; it matches at a position exactly when a slash stands there and only slashes
  follow up to the end. The first match is replaced by the empty string.
\<close>

fun strip_trailing_slashes :: "string \<Rightarrow> string" where
  "strip_trailing_slashes [] = []"
| "strip_trailing_slashes (c # cs) =
     (if c = CHR ''/'' \<and> list_all (\<lambda>d. d = CHR ''/'') cs then []
      else c # strip_trailing_slashes cs)"

text \<open>\<open>!x\<close> for an optional string: true when it is missing or empty.\<close>

fun js_not :: "string option \<Rightarrow> bool" where
  "js_not None = True"
| "js_not (Some s) = (s = [])"

text \<open>\<open>x ?? d\<close>.\<close>

fun nullish :: "'a option \<Rightarrow> 'a \<Rightarrow> 'a" where
  "nullish None d = d"
| "nullish (Some x) d = x"

definition constructor :: "PluginConfig \<Rightarrow> error + plugin \<times> effect list" where
  "constructor config =
     (if js_not (gitlab_url config) then
        Inl (Error ''verdaccio-gitlab-oidc-auth: 'gitlab_url' is required in plugin configuration'')
      else if js_not (audience config) then
        Inl (Error ''verdaccio-gitlab-oidc-auth: 'audience' is required in plugin configuration'')
      else
        (let this = \<lparr> gitlabUrl = strip_trailing_slashes (nullish (gitlab_url config) []),
                       this_audience = nullish (audience config) [],
                       ciUsername = nullish (ci_username config) DEFAULT_CI_USERNAME,
                       jwksCacheTtl = nullish (jwks_cache_ttl config) DEFAULT_JWKS_CACHE_TTL,
                       projectGroups = nullish (project_groups config) False,
                       jwks = None \<rparr>
         in Inr (this, [LoggerInfo [(''gitlab_url'', JStr (gitlabUrl this)),
                                    (''audience'', JStr (this_audience this))]])))"

subsection \<open>deriveGroups\<close>

definition deriveGroups :: "plugin \<Rightarrow> GitLabJwtClaims \<Rightarrow> string list" where
  "deriveGroups this claims =
     [''gitlab-ci'']
     @ (if ref_protected claims = JStr ''true'' then [''gitlab-ci-protected''] else [])
     @ (if projectGroups this then
          (if truthy (namespace_path claims)
           then [''gitlab:'' @ to_string (namespace_path claims)] else [])
          @ (if truthy (project_path claims)
             then [''gitlab:'' @ to_string (project_path claims)] else [])
        else [])"

subsection \<open>verifyAndAuthenticate\<close>

definition jwks_endpoint :: "plugin \<Rightarrow> string" where
  "jwks_endpoint this = gitlabUrl this @ ''/oauth/discovery/keys''"

definition verify_opts :: "plugin \<Rightarrow> verify_options" where
  "verify_opts this =
     \<lparr> opt_algorithms = [''RS256''], opt_issuer = gitlabUrl this,
       opt_audience = this_audience this \<rparr>"

text \<open>
  The lazy creation of \<open>this.jwks\<close>: an existing key set is reused; otherwise the URL
  is built, which throws on a string that is no URL, and the key set is stored.
\<close>

definition ensure_jwks :: "env \<Rightarrow> plugin \<Rightarrow> error + remote_jwks \<times> plugin \<times> effect list" where
  "ensure_jwks e this =
     (case jwks this of
        Some j \<Rightarrow> Inr (j, this, [])
      | None \<Rightarrow>
          if url_parses e (jwks_endpoint this) then
            (let j = \<lparr> jwks_url = jwks_endpoint this,
                        cacheMaxAge = jwksCacheTtl this * 1000 \<rparr>
             in Inr (j, this\<lparr> jwks := Some j \<rparr>,
                     [CreateRemoteJWKSet (jwks_endpoint this) (jwksCacheTtl this * 1000)]))
          else Inl (Error ''Invalid URL''))"

text \<open>
  The asynchronous function resolves with the groups or rejects with the error thrown
  inside it; the result also carries the plugin after the call and the effects.
\<close>

definition verifyAndAuthenticate ::
  "env \<Rightarrow> plugin \<Rightarrow> string \<Rightarrow> (error + string list) \<times> plugin \<times> effect list" where
  "verifyAndAuthenticate e this token =
     (case ensure_jwks e this of
        Inl err \<Rightarrow> (Inl err, this, [])
      | Inr (j, this', fx) \<Rightarrow>
          (case jwtVerify e token j (verify_opts this') of
             Inl err \<Rightarrow> (Inl err, this', fx @ [JwtVerify token j (verify_opts this')])
           | Inr payload \<Rightarrow>
               (Inr (deriveGroups this' payload), this',
                fx @ [JwtVerify token j (verify_opts this'),
                      LoggerInfo [(''project'', project_path payload),
                                  (''ref'', ref payload),
                                  (''job'', job_id payload)]])))"

subsection \<open>authenticate and adduser\<close>

definition authenticate ::
  "env \<Rightarrow> plugin \<Rightarrow> string \<Rightarrow> string \<Rightarrow> callback \<times> plugin \<times> effect list" where
  "authenticate e this user password =
     (if user \<noteq> ciUsername this then (Callback None CbFalse, this, [])
      else
        (case verifyAndAuthenticate e this password of
           (Inr groups, this', fx) \<Rightarrow> (Callback None (CbGroups groups), this', fx)
         | (Inl err, this', fx) \<Rightarrow>
             (Callback None CbFalse, this',
              fx @ [LoggerWarn [(''error'', JStr (message err))]])))"

definition adduser :: "plugin \<Rightarrow> string \<Rightarrow> string \<Rightarrow> callback" where
  "adduser this user password = Callback None CbFalse"

section \<open>Test data (fixtures.ts and the plugin tests)\<close>

definition PROTECTED_BRANCH_PUSH :: GitLabJwtClaims where
  "PROTECTED_BRANCH_PUSH =
     \<lparr> sub = JStr ''project_path:my-group/my-project:ref_type:branch:ref:main'',
       ref = JStr ''main'',
       ref_type = JStr ''branch'',
       ref_protected = JStr ''true'',
       project_path = JStr ''my-group/my-project'',
       namespace_path = JStr ''my-group'',
       user_login = JStr ''ci-bot'',
       pipeline_source = JStr ''push'',
       job_id = JStr ''10001'' \<rparr>"

text \<open>The groups the fixture expects for it with \<open>project_groups\<close> enabled.\<close>

definition PROTECTED_BRANCH_PUSH_expectedGroupsWithProjects :: "string list" where
  "PROTECTED_BRANCH_PUSH_expectedGroupsWithProjects =
     [''gitlab-ci'', ''gitlab-ci-protected'', ''gitlab-ci:my-group'',
      ''gitlab-ci-protected:my-group'', ''gitlab-ci:my-group/my-project'',
      ''gitlab-ci-protected:my-group/my-project'']"

text \<open>A payload in which every claim is absent.\<close>

definition no_claims :: GitLabJwtClaims where
  "no_claims =
     \<lparr> sub = JUndefined, ref = JUndefined, ref_type = JUndefined,
       ref_protected = JUndefined, project_path = JUndefined,
       namespace_path = JUndefined, user_login = JUndefined,
       pipeline_source = JUndefined, job_id = JUndefined \<rparr>"

text \<open>\<open>createPlugin\<close> of the tests, with its overrides as a parameter.\<close>

definition test_config :: "string \<Rightarrow> bool option \<Rightarrow> PluginConfig" where
  "test_config url pg =
     \<lparr> gitlab_url = Some url, audience = Some ''https://npm.example.com'',
       ci_username = None, jwks_cache_ttl = None, project_groups = pg \<rparr>"

definition test_plugin :: "bool \<Rightarrow> plugin" where
  "test_plugin pg =
     \<lparr> gitlabUrl = ''https://gitlab.example.com'',
       this_audience = ''https://npm.example.com'',
       ciUsername = ''gitlab-oidc'',
       jwksCacheTtl = 86400,
       projectGroups = pg,
       jwks = None \<rparr>"

text \<open>
  An environment in which every URL parses and the verifier accepts exactly the token
  \<open>''good''\<close>, answering with the given payload.
\<close>

definition test_env :: "GitLabJwtClaims \<Rightarrow> env" where
  "test_env payload =
     \<lparr> url_parses = (\<lambda>u. True),
       jwtVerify = (\<lambda>token j opts.
          if token = ''good'' then Inr payload else Inl (Error ''JWSInvalid'')) \<rparr>"

section \<open>The host calling the plugin\<close>

text \<open>
  The host keeps one plugin object and calls \<open>authenticate\<close> on it once per request.
  The environment may differ from call to call. The result collects the callbacks, the
  plugin after the last call and all effects in order.
\<close>

fun authenticate_all ::
  "plugin \<Rightarrow> (env \<times> string \<times> string) list \<Rightarrow> callback list \<times> plugin \<times> effect list" where
  "authenticate_all this [] = ([], this, [])"
| "authenticate_all this ((e, user, password) # rs) =
     (case authenticate e this user password of
        (cb, this', fx) \<Rightarrow>
          (case authenticate_all this' rs of
             (cbs, this'', fxs) \<Rightarrow> (cb # cbs, this'', fx @ fxs)))"

text \<open>
  An effect agrees with an issuer when the key set is created for, and the verification
  runs against, the key URL under that issuer, and the expected issuer is that very string.
\<close>

fun uses_issuer :: "string \<Rightarrow> effect \<Rightarrow> bool" where
  "uses_issuer iss (CreateRemoteJWKSet url age) = (url = iss @ ''/oauth/discovery/keys'')"
| "uses_issuer iss (JwtVerify token j opts) =
     (jwks_url j = iss @ ''/oauth/discovery/keys'' \<and> opt_issuer opts = iss)"
| "uses_issuer iss (LoggerInfo b) = True"
| "uses_issuer iss (LoggerWarn b) = True"

text \<open>The stored key set, if any, was created for the plugin's own issuer.\<close>

definition jwks_consistent :: "plugin \<Rightarrow> bool" where
  "jwks_consistent this =
     (case jwks this of None \<Rightarrow> True | Some j \<Rightarrow> jwks_url j = jwks_endpoint this)"

section \<open>Reading a group identifier\<close>

text \<open>
  A group identifier is scoped when it carries a colon; its scope is what follows the
  first colon.
\<close>

definition is_scoped :: "string \<Rightarrow> bool" where
  "is_scoped g = (CHR '':'' \<in> set g)"

definition scope_of :: "string \<Rightarrow> string" where
  "scope_of g = tl (dropWhile (\<lambda>c. c \<noteq> CHR '':'') g)"

section \<open>Group derivation\<close>

text \<open>
  C3. Whenever \<open>ref_protected\<close> is anything but the exact string \<open>"true"\<close> (a boolean,
  absent, \<open>"TRUE"\<close>, any other string), the derived groups contain neither the protected
  base identifier nor any identifier that begins with the protected prefix followed by a
  colon, under the spelling of the code (\<open>gitlab-ci-protected\<close>) and under the spelling
  of the specification (\<open>ci-protected\<close>). No error arises: the function is total, and
  the result is the one for \<open>ref_protected = "false"\<close>.
\<close>

theorem unprotected_has_no_protected_groups:
  assumes "ref_protected c \<noteq> JStr ''true''"
  shows "''gitlab-ci-protected'' \<notin> set (deriveGroups p c)
       \<and> ''ci-protected'' \<notin> set (deriveGroups p c)
       \<and> (\<forall>g \<in> set (deriveGroups p c).
             \<not> prefix ''gitlab-ci-protected:'' g \<and> \<not> prefix ''ci-protected:'' g)
       \<and> deriveGroups p c = deriveGroups p (c\<lparr> ref_protected := JStr ''false'' \<rparr>)"
  using assms by (simp add: deriveGroups_def)

theorem unprotected_has_no_protected_groups_witness:
  "ref_protected (PROTECTED_BRANCH_PUSH\<lparr> ref_protected := JBool True \<rparr>) \<noteq> JStr ''true''
   \<and> ''gitlab-ci-protected''
       \<notin> set (deriveGroups (test_plugin True) (PROTECTED_BRANCH_PUSH\<lparr> ref_protected := JBool True \<rparr>))
   \<and> deriveGroups (test_plugin True) (PROTECTED_BRANCH_PUSH\<lparr> ref_protected := JBool True \<rparr>)
       = [''gitlab-ci'', ''gitlab:my-group'', ''gitlab:my-group/my-project'']"
  using unprotected_has_no_protected_groups
          [of "PROTECTED_BRANCH_PUSH\<lparr> ref_protected := JBool True \<rparr>" "test_plugin True"]
  by (simp add: deriveGroups_def PROTECTED_BRANCH_PUSH_def test_plugin_def)

text \<open>
  C4. With \<open>project_groups\<close> disabled the derived list has one or two entries
  (the base identifier, and the protected base identifier on a protected ref), and no
  entry carries a colon.
\<close>

theorem disabled_project_groups_base_only:
  assumes "\<not> projectGroups p"
  shows "(length (deriveGroups p c) = 1 \<or> length (deriveGroups p c) = 2)
       \<and> (\<forall>g \<in> set (deriveGroups p c). \<not> is_scoped g)
       \<and> deriveGroups p c =
           (if ref_protected c = JStr ''true''
            then [''gitlab-ci'', ''gitlab-ci-protected''] else [''gitlab-ci''])"
  using assms by (simp add: deriveGroups_def is_scoped_def)

theorem disabled_project_groups_base_only_witness:
  "\<not> projectGroups (test_plugin False)
   \<and> length (deriveGroups (test_plugin False) PROTECTED_BRANCH_PUSH) = 2
   \<and> deriveGroups (test_plugin False) PROTECTED_BRANCH_PUSH
       = [''gitlab-ci'', ''gitlab-ci-protected'']"
  using disabled_project_groups_base_only [of "test_plugin False" PROTECTED_BRANCH_PUSH]
  by (simp add: PROTECTED_BRANCH_PUSH_def test_plugin_def)

text \<open>
  C1. For the protected push to \<open>main\<close> of \<open>my-group/my-project\<close> (namespace
  \<open>my-group\<close>) with \<open>project_groups\<close> enabled, the claim and the fixture of the
  tests expect six entries: the two base identifiers, then for each path the entry of
  the base tag followed by the entry of the protected tag (the claim writes \<open>ci\<close>
  where the code and the fixture write \<open>gitlab-ci\<close>). The function does not return
  them: it returns four entries, one \<open>gitlab:\<close> entry per path and no
  protected-scoped entry, which is neither the fixture's list nor the claim's.
\<close>

theorem protected_push_groups_diverge:
  "deriveGroups (test_plugin True) PROTECTED_BRANCH_PUSH
     = [''gitlab-ci'', ''gitlab-ci-protected'', ''gitlab:my-group'',
        ''gitlab:my-group/my-project'']
   \<and> deriveGroups (test_plugin True) PROTECTED_BRANCH_PUSH
     \<noteq> PROTECTED_BRANCH_PUSH_expectedGroupsWithProjects
   \<and> deriveGroups (test_plugin True) PROTECTED_BRANCH_PUSH
     \<noteq> [''ci'', ''ci-protected'', ''ci:my-group'', ''ci-protected:my-group'',
        ''ci:my-group/my-project'', ''ci-protected:my-group/my-project'']
   \<and> ''gitlab-ci-protected:my-group/my-project''
       \<notin> set (deriveGroups (test_plugin True) PROTECTED_BRANCH_PUSH)"
  by (simp add: deriveGroups_def PROTECTED_BRANCH_PUSH_def test_plugin_def
        PROTECTED_BRANCH_PUSH_expectedGroupsWithProjects_def)

text \<open>
  C2, as stated, fails. For the unprotected claim set with namespace \<open>a/b/c\<close> and
  project \<open>a/b/c/d\<close>, with \<open>project_groups\<close> enabled, the result has no entry for
  the prefix \<open>a\<close> or \<open>a/b\<close>, whatever the spelling of the tag.
\<close>

theorem prefix_chain_counterexample:
  "deriveGroups (test_plugin True)
     (no_claims\<lparr> ref_protected := JStr ''false'', namespace_path := JStr ''a/b/c'',
                 project_path := JStr ''a/b/c/d'' \<rparr>)
     = [''gitlab-ci'', ''gitlab:a/b/c'', ''gitlab:a/b/c/d'']
   \<and> ''ci:a'' \<notin> set (deriveGroups (test_plugin True)
     (no_claims\<lparr> ref_protected := JStr ''false'', namespace_path := JStr ''a/b/c'',
                 project_path := JStr ''a/b/c/d'' \<rparr>))
   \<and> ''a'' \<notin> scope_of ` set (deriveGroups (test_plugin True)
     (no_claims\<lparr> ref_protected := JStr ''false'', namespace_path := JStr ''a/b/c'',
                 project_path := JStr ''a/b/c/d'' \<rparr>))
   \<and> ''a/b'' \<notin> scope_of ` set (deriveGroups (test_plugin True)
     (no_claims\<lparr> ref_protected := JStr ''false'', namespace_path := JStr ''a/b/c'',
                 project_path := JStr ''a/b/c/d'' \<rparr>))"
  by (simp add: deriveGroups_def no_claims_def test_plugin_def scope_of_def)

text \<open>
  C2, amended. With \<open>project_groups\<close> enabled no path is expanded into a chain of
  prefixes: the scoped entries of the result are scoped to the whole namespace path (when
  it is non-empty) and then to the whole project path (when it is non-empty), and to
  nothing else. The scopes are read in order, without immediate repetitions.
\<close>

theorem scoped_entries_carry_whole_paths:
  assumes "projectGroups p"
  shows "remdups_adj (map scope_of (filter is_scoped (deriveGroups p c)))
       = remdups_adj
           ((if truthy (namespace_path c) then [to_string (namespace_path c)] else [])
            @ (if truthy (project_path c) then [to_string (project_path c)] else []))"
  using assms by (simp add: deriveGroups_def is_scoped_def scope_of_def)

theorem scoped_entries_carry_whole_paths_witness:
  "projectGroups (test_plugin True)
   \<and> remdups_adj (map scope_of (filter is_scoped
        (deriveGroups (test_plugin True)
           (no_claims\<lparr> namespace_path := JStr ''a/b/c'', project_path := JStr ''a/b/c/d'' \<rparr>))))
     = [''a/b/c'', ''a/b/c/d'']"
  using scoped_entries_carry_whole_paths
          [of "test_plugin True"
              "no_claims\<lparr> namespace_path := JStr ''a/b/c'', project_path := JStr ''a/b/c/d'' \<rparr>"]
  by (simp add: no_claims_def test_plugin_def)

text \<open>
  C5, as stated, fails. No deduplication is performed: when \<open>namespace_path\<close> equals
  \<open>project_path\<close> and \<open>project_groups\<close> is enabled, the same entry is emitted twice.
\<close>

theorem equal_paths_duplicate_counterexample:
  "deriveGroups (test_plugin True)
     (no_claims\<lparr> namespace_path := JStr ''my-group'', project_path := JStr ''my-group'' \<rparr>)
     = [''gitlab-ci'', ''gitlab:my-group'', ''gitlab:my-group'']
   \<and> \<not> distinct (deriveGroups (test_plugin True)
     (no_claims\<lparr> namespace_path := JStr ''my-group'', project_path := JStr ''my-group'' \<rparr>))"
  by (simp add: deriveGroups_def no_claims_def test_plugin_def)

text \<open>
  C5, amended. The returned list is free of duplicates exactly when \<open>project_groups\<close>
  is disabled, or one of the two paths is absent or empty, or the two paths differ as
  strings. In the remaining case the shared entry appears twice.
\<close>

theorem groups_distinct_iff:
  "distinct (deriveGroups p c) \<longleftrightarrow>
     \<not> (projectGroups p \<and> truthy (namespace_path c) \<and> truthy (project_path c)
        \<and> to_string (namespace_path c) = to_string (project_path c))"
  by (simp add: deriveGroups_def)

section \<open>Issuer normalisation\<close>

lemma all_slashes_replicate:
  "list_all (\<lambda>d. d = CHR ''/'') cs \<Longrightarrow> cs = replicate (length cs) CHR ''/''"
  by (induction cs) simp_all

lemma strip_empty_iff:
  "strip_trailing_slashes s = [] \<longleftrightarrow> list_all (\<lambda>d. d = CHR ''/'') s"
  by (induction s) auto

lemma strip_decompose:
  "s = strip_trailing_slashes s
       @ replicate (length s - length (strip_trailing_slashes s)) CHR ''/''"
proof (induction s)
  case Nil
  show ?case by simp
next
  case (Cons c cs)
  show ?case
  proof (cases "c = CHR ''/'' \<and> list_all (\<lambda>d. d = CHR ''/'') cs")
    case True
    then have "c # cs = replicate (Suc (length cs)) CHR ''/''"
      using all_slashes_replicate [of cs] by simp
    with True show ?thesis by simp
  next
    case False
    with Cons.IH show ?thesis by auto
  qed
qed

lemma strip_last:
  "strip_trailing_slashes s \<noteq> [] \<Longrightarrow> last (strip_trailing_slashes s) \<noteq> CHR ''/''"
proof (induction s)
  case Nil
  then show ?case by simp
next
  case (Cons c cs)
  show ?case
  proof (cases "strip_trailing_slashes cs = []")
    case True
    then have "list_all (\<lambda>d. d = CHR ''/'') cs" by (simp add: strip_empty_iff)
    with Cons.prems True show ?thesis by (auto split: if_splits)
  next
    case False
    with Cons show ?thesis by (auto split: if_splits)
  qed
qed

lemma strip_no_slash_suffix: "\<not> suffix ''/'' (strip_trailing_slashes s)"
proof
  assume "suffix ''/'' (strip_trailing_slashes s)"
  then obtain xs where xs: "strip_trailing_slashes s = xs @ ''/''"
    by (auto simp: suffix_def)
  then have "strip_trailing_slashes s \<noteq> []" by simp
  from strip_last [OF this] xs show False by simp
qed

lemma strip_is_dropWhile:
  "strip_trailing_slashes s = rev (dropWhile (\<lambda>d. d = CHR ''/'') (rev s))"
proof -
  let ?t = "strip_trailing_slashes s"
  let ?n = "length s - length ?t"
  have "rev s = replicate ?n CHR ''/'' @ rev ?t"
    using strip_decompose [of s] by (metis rev_append rev_replicate)
  moreover have "dropWhile (\<lambda>d. d = CHR ''/'') (replicate ?n CHR ''/'' @ rev ?t) = rev ?t"
  proof (cases "?t = []")
    case True
    then show ?thesis by (simp add: dropWhile_append)
  next
    case False
    then have "hd (rev ?t) \<noteq> CHR ''/''"
      using strip_last [of s] by (simp add: hd_rev)
    with False have "dropWhile (\<lambda>d. d = CHR ''/'') (rev ?t) = rev ?t"
      by (cases "rev ?t") auto
    then show ?thesis by (simp add: dropWhile_append)
  qed
  ultimately show ?thesis by simp
qed

section \<open>State kept across calls\<close>

lemma ensure_jwks_fields:
  "ensure_jwks e p = Inr (j, p', fx) \<Longrightarrow>
   gitlabUrl p' = gitlabUrl p \<and> this_audience p' = this_audience p
   \<and> ciUsername p' = ciUsername p \<and> projectGroups p' = projectGroups p
   \<and> jwksCacheTtl p' = jwksCacheTtl p \<and> jwks p' = Some j"
  by (auto simp: ensure_jwks_def Let_def split: option.splits if_splits)

lemma ensure_jwks_consistent:
  "jwks_consistent p \<Longrightarrow> ensure_jwks e p = Inr (j, p', fx) \<Longrightarrow>
   jwks_url j = jwks_endpoint p \<and> jwks_consistent p'
   \<and> list_all (uses_issuer (gitlabUrl p)) fx"
  by (auto simp: ensure_jwks_def jwks_consistent_def jwks_endpoint_def Let_def
      split: option.splits if_splits)

lemma verifyAndAuthenticate_consistent:
  assumes "jwks_consistent p" and "verifyAndAuthenticate e p token = (r, p', fx)"
  shows "gitlabUrl p' = gitlabUrl p \<and> jwks_consistent p'
       \<and> list_all (uses_issuer (gitlabUrl p)) fx"
proof (cases "ensure_jwks e p")
  case (Inl err)
  with assms show ?thesis by (auto simp: verifyAndAuthenticate_def)
next
  case (Inr t)
  obtain j q gx where t: "t = (j, q, gx)" by (cases t) auto
  from Inr t have ej: "ensure_jwks e p = Inr (j, q, gx)" by simp
  note f = ensure_jwks_fields [OF ej] and c = ensure_jwks_consistent [OF assms(1) ej]
  from assms(2) ej have "p' = q"
    by (auto simp: verifyAndAuthenticate_def split: sum.splits)
  moreover from assms(2) ej f c have "list_all (uses_issuer (gitlabUrl p)) fx"
    by (auto simp: verifyAndAuthenticate_def verify_opts_def jwks_endpoint_def
        split: sum.splits)
  ultimately show ?thesis using f c by simp
qed

lemma authenticate_consistent:
  assumes "jwks_consistent p" and "authenticate e p user password = (cb, p', fx)"
  shows "gitlabUrl p' = gitlabUrl p \<and> jwks_consistent p'
       \<and> list_all (uses_issuer (gitlabUrl p)) fx"
proof (cases "user \<noteq> ciUsername p")
  case True
  with assms show ?thesis by (auto simp: authenticate_def)
next
  case False
  obtain r q gx where v: "verifyAndAuthenticate e p password = (r, q, gx)"
    by (cases "verifyAndAuthenticate e p password") auto
  note c = verifyAndAuthenticate_consistent [OF assms(1) v]
  from False assms(2) v have "p' = q \<and> (fx = gx \<or> (\<exists>b. fx = gx @ [LoggerWarn b]))"
    by (auto simp: authenticate_def split: sum.splits)
  with c show ?thesis by auto
qed

lemma authenticate_all_consistent:
  "jwks_consistent p \<Longrightarrow>
   list_all (uses_issuer (gitlabUrl p)) (snd (snd (authenticate_all p reqs)))"
proof (induction reqs arbitrary: p)
  case Nil
  show ?case by simp
next
  case (Cons rq reqs)
  obtain e user password where rq: "rq = (e, user, password)" by (cases rq) auto
  obtain cb q fx where a: "authenticate e p user password = (cb, q, fx)"
    by (cases "authenticate e p user password") auto
  note c = authenticate_consistent [OF Cons.prems a]
  then have "list_all (uses_issuer (gitlabUrl p)) (snd (snd (authenticate_all q reqs)))"
    using Cons.IH [of q] by simp
  with c rq a show ?case
    by (cases "authenticate_all q reqs") auto
qed

lemma ensure_jwks_deriveGroups:
  "ensure_jwks e p = Inr (j, p', fx) \<Longrightarrow> deriveGroups p' c = deriveGroups p c"
  using ensure_jwks_fields [of e p j p' fx] by (simp add: deriveGroups_def)

lemma verifyAndAuthenticate_rejects_iff:
  "fst (verifyAndAuthenticate e p token) = Inl err \<longleftrightarrow>
     ensure_jwks e p = Inl err
     \<or> (\<exists>j p' fx. ensure_jwks e p = Inr (j, p', fx)
           \<and> jwtVerify e token j (verify_opts p') = Inl err)"
  by (auto simp: verifyAndAuthenticate_def split: sum.splits)

section \<open>Authentication outcomes\<close>

text \<open>
  C6, as stated, fails. No required-field check exists: a verified payload in which
  every claim is absent authenticates, with the base group.
\<close>

theorem absent_claims_counterexample:
  "sub no_claims = JUndefined \<and> ref no_claims = JUndefined
   \<and> ref_type no_claims = JUndefined \<and> ref_protected no_claims = JUndefined
   \<and> project_path no_claims = JUndefined \<and> namespace_path no_claims = JUndefined
   \<and> pipeline_source no_claims = JUndefined
   \<and> fst (authenticate (test_env no_claims) (test_plugin True) ''gitlab-oidc'' ''good'')
       = Callback None (CbGroups [''gitlab-ci''])
   \<and> fst (authenticate (test_env no_claims) (test_plugin True) ''gitlab-oidc'' ''good'')
       \<noteq> Callback None CbFalse"
  by (simp add: authenticate_def verifyAndAuthenticate_def ensure_jwks_def Let_def
        deriveGroups_def no_claims_def test_env_def test_plugin_def)

text \<open>
  C6, amended. Absent claims raise no error. Whenever the key set is available and the
  verifier accepts the token, the trigger user is authenticated with the groups derived
  from the payload, whichever claims it lacks. The list starts with the base group and
  depends on \<open>ref_protected\<close>, \<open>namespace_path\<close> and \<open>project_path\<close> only: an
  absent \<open>ref_protected\<close> counts as unprotected, an absent path adds no entry.
\<close>

theorem verified_payload_authenticates:
  assumes "ensure_jwks e p = Inr (j, p', fx)"
    and "jwtVerify e token j (verify_opts p') = Inr payload"
  shows "fst (authenticate e p (ciUsername p) token)
           = Callback None (CbGroups (deriveGroups p payload))
       \<and> hd (deriveGroups p payload) = ''gitlab-ci''
       \<and> deriveGroups p payload
           = deriveGroups p (no_claims\<lparr> ref_protected := ref_protected payload,
                                        namespace_path := namespace_path payload,
                                        project_path := project_path payload \<rparr>)"
proof -
  have "fst (authenticate e p (ciUsername p) token)
          = Callback None (CbGroups (deriveGroups p' payload))"
    using assms by (simp add: authenticate_def verifyAndAuthenticate_def)
  then show ?thesis
    using ensure_jwks_deriveGroups [OF assms(1)] by (simp add: deriveGroups_def)
qed

theorem verified_payload_authenticates_witness:
  "jwtVerify (test_env no_claims) ''good''
      \<lparr> jwks_url = ''https://gitlab.example.com/oauth/discovery/keys'',
        cacheMaxAge = 86400000 \<rparr>
      \<lparr> opt_algorithms = [''RS256''], opt_issuer = ''https://gitlab.example.com'',
        opt_audience = ''https://npm.example.com'' \<rparr> = Inr no_claims
   \<and> fst (authenticate (test_env no_claims) (test_plugin False) ''gitlab-oidc'' ''good'')
       = Callback None (CbGroups [''gitlab-ci''])"
proof -
  let ?j = "\<lparr> jwks_url = ''https://gitlab.example.com/oauth/discovery/keys'',
              cacheMaxAge = 86400000 \<rparr>"
  let ?p' = "(test_plugin False)\<lparr> jwks := Some ?j \<rparr>"
  have h1: "ensure_jwks (test_env no_claims) (test_plugin False)
              = Inr (?j, ?p', [CreateRemoteJWKSet
                    ''https://gitlab.example.com/oauth/discovery/keys'' 86400000])"
    by (simp add: ensure_jwks_def Let_def jwks_endpoint_def test_env_def test_plugin_def)
  have h2: "jwtVerify (test_env no_claims) ''good'' ?j (verify_opts ?p') = Inr no_claims"
    by (simp add: test_env_def)
  from verified_payload_authenticates [OF h1 h2] h2 show ?thesis
    by (simp add: deriveGroups_def no_claims_def test_plugin_def verify_opts_def)
qed

text \<open>
  C7. Whatever the token, when verification fails at any stage (the key URL cannot be
  built, or the verifier rejects the token: malformed, bad signature, unknown key, keys
  not retrievable, issuer, audience or expiry mismatch), \<open>authenticate\<close> calls back
  with \<open>null\<close> and \<open>false\<close>; the error never reaches the caller.
\<close>

theorem verification_failure_not_authenticated:
  assumes "ensure_jwks e p = Inl err
         \<or> (\<exists>j p' fx. ensure_jwks e p = Inr (j, p', fx)
               \<and> jwtVerify e password j (verify_opts p') = Inl err)"
  shows "fst (authenticate e p user password) = Callback None CbFalse"
proof -
  from assms have "fst (verifyAndAuthenticate e p password) = Inl err"
    by (simp add: verifyAndAuthenticate_rejects_iff)
  then show ?thesis
    by (cases "verifyAndAuthenticate e p password") (auto simp: authenticate_def)
qed

theorem verification_failure_not_authenticated_witness:
  "jwtVerify (test_env PROTECTED_BRANCH_PUSH) ''not-a-jwt''
      \<lparr> jwks_url = ''https://gitlab.example.com/oauth/discovery/keys'',
        cacheMaxAge = 86400000 \<rparr>
      (verify_opts (test_plugin False)) = Inl (Error ''JWSInvalid'')
   \<and> fst (authenticate (test_env PROTECTED_BRANCH_PUSH) (test_plugin False)
            ''gitlab-oidc'' ''not-a-jwt'') = Callback None CbFalse"
proof -
  have h: "ensure_jwks (test_env PROTECTED_BRANCH_PUSH) (test_plugin False)
             = Inl (Error ''JWSInvalid'')
         \<or> (\<exists>j p' fx. ensure_jwks (test_env PROTECTED_BRANCH_PUSH) (test_plugin False)
                         = Inr (j, p', fx)
               \<and> jwtVerify (test_env PROTECTED_BRANCH_PUSH) ''not-a-jwt'' j (verify_opts p')
                   = Inl (Error ''JWSInvalid''))"
    by (simp add: ensure_jwks_def Let_def test_env_def test_plugin_def)
  from verification_failure_not_authenticated [OF h, of "''gitlab-oidc''"] show ?thesis
    by (simp add: test_env_def)
qed

text \<open>
  C8. A configuration that lacks \<open>gitlab_url\<close> or lacks \<open>audience\<close> makes the
  constructor throw: it yields an error and no plugin object.
\<close>

theorem missing_required_config_throws:
  assumes "gitlab_url config = None \<or> audience config = None"
  shows "(\<exists>m. constructor config = Inl (Error m)) \<and> (\<forall>r. constructor config \<noteq> Inr r)"
  using assms by (auto simp: constructor_def)

theorem missing_required_config_throws_witness:
  "gitlab_url ((test_config ''https://gitlab.example.com'' None)\<lparr> gitlab_url := None \<rparr>) = None
   \<and> constructor ((test_config ''https://gitlab.example.com'' None)\<lparr> gitlab_url := None \<rparr>)
       = Inl (Error ''verdaccio-gitlab-oidc-auth: 'gitlab_url' is required in plugin configuration'')"
  using missing_required_config_throws
          [of "(test_config ''https://gitlab.example.com'' None)\<lparr> gitlab_url := None \<rparr>"]
  by (simp add: constructor_def test_config_def)

text \<open>
  C9. The constructor stores the configured URL with all its trailing slashes removed,
  however many there are: the configured value is the stored one followed by slashes
  only, and the stored one does not end in a slash. Over any sequence of later calls,
  every key set is created for, and every verification runs against, the stored value
  followed by \<open>/oauth/discovery/keys\<close>, with the stored value as the expected issuer.
\<close>

theorem issuer_stripped_and_shared:
  assumes "constructor config = Inr (p, fx)"
  shows "\<exists>u n. gitlab_url config = Some u
           \<and> u = gitlabUrl p @ replicate n CHR ''/''
           \<and> \<not> suffix ''/'' (gitlabUrl p)
           \<and> jwks_endpoint p = gitlabUrl p @ ''/oauth/discovery/keys''
           \<and> opt_issuer (verify_opts p) = gitlabUrl p
           \<and> list_all (uses_issuer (gitlabUrl p)) (snd (snd (authenticate_all p reqs)))"
proof -
  from assms obtain u where u: "gitlab_url config = Some u"
    by (cases "gitlab_url config") (auto simp: constructor_def)
  from assms u have g: "gitlabUrl p = strip_trailing_slashes u" and k: "jwks p = None"
    by (auto simp: constructor_def Let_def split: if_splits)
  from k have "jwks_consistent p" by (simp add: jwks_consistent_def)
  then have "list_all (uses_issuer (gitlabUrl p)) (snd (snd (authenticate_all p reqs)))"
    by (rule authenticate_all_consistent)
  moreover have "u = gitlabUrl p @ replicate (length u - length (gitlabUrl p)) CHR ''/''"
    using strip_decompose [of u] g by simp
  moreover have "\<not> suffix ''/'' (gitlabUrl p)"
    using strip_no_slash_suffix [of u] g by simp
  ultimately show ?thesis
    using u by (auto simp: jwks_endpoint_def verify_opts_def)
qed

theorem issuer_stripped_and_shared_witness:
  "constructor (test_config ''https://gitlab.example.com///'' None)
     = Inr (test_plugin False,
            [LoggerInfo [(''gitlab_url'', JStr ''https://gitlab.example.com''),
                         (''audience'', JStr ''https://npm.example.com'')]])
   \<and> snd (snd (authenticate_all (test_plugin False)
        [(test_env PROTECTED_BRANCH_PUSH, ''gitlab-oidc'', ''good'')]))
     = [CreateRemoteJWKSet ''https://gitlab.example.com/oauth/discovery/keys'' 86400000,
        JwtVerify ''good''
          \<lparr> jwks_url = ''https://gitlab.example.com/oauth/discovery/keys'',
            cacheMaxAge = 86400000 \<rparr>
          \<lparr> opt_algorithms = [''RS256''], opt_issuer = ''https://gitlab.example.com'',
            opt_audience = ''https://npm.example.com'' \<rparr>,
        LoggerInfo [(''project'', JStr ''my-group/my-project''), (''ref'', JStr ''main''),
                    (''job'', JStr ''10001'')]]"
proof -
  have c: "constructor (test_config ''https://gitlab.example.com///'' None)
     = Inr (test_plugin False,
            [LoggerInfo [(''gitlab_url'', JStr ''https://gitlab.example.com''),
                         (''audience'', JStr ''https://npm.example.com'')]])"
    by (simp add: constructor_def test_config_def test_plugin_def
          DEFAULT_CI_USERNAME_def DEFAULT_JWKS_CACHE_TTL_def)
  from issuer_stripped_and_shared [OF c] c show ?thesis
    by (simp add: authenticate_def verifyAndAuthenticate_def ensure_jwks_def Let_def
          jwks_endpoint_def verify_opts_def deriveGroups_def test_env_def
          test_plugin_def PROTECTED_BRANCH_PUSH_def)
qed

text \<open>
  C10. For a user name other than the trigger name, the empty one included, and any
  password, \<open>authenticate\<close> calls back with \<open>null\<close> and \<open>false\<close>, makes no
  call to the URL parser, the key set or the verifier, logs nothing and leaves the
  plugin as it was.
\<close>

theorem other_user_passes_through:
  assumes "user \<noteq> ciUsername p"
  shows "authenticate e p user password = (Callback None CbFalse, p, [])"
  using assms by (simp add: authenticate_def)

theorem other_user_passes_through_witness:
  "[] \<noteq> ciUsername (test_plugin False)
   \<and> authenticate (test_env PROTECTED_BRANCH_PUSH) (test_plugin False) [] ''password123''
       = (Callback None CbFalse, test_plugin False, [])"
proof -
  have h: "[] \<noteq> ciUsername (test_plugin False)" by (simp add: test_plugin_def)
  from other_user_passes_through [OF h] h show ?thesis by simp
qed


end
